theory Spec2Isabelle
  imports Main
begin

section \<open>The webview editor of src/webviews/Webview.ts\<close>

text \<open>
  The class \<open>WebviewEditor\<close> owns three private fields (\<open>panel\<close>,
  \<open>disposablePanel\<close>, \<open>invalidateOnVisible\<close>) and talks to three collaborators
  of the host: the window (panel creation, the panel's webview), the workspace
  (\<open>openTextDocument\<close>) and the settings helper (\<open>getCustomSettings\<close>).

  The model is explicit state passing. The state holds the three fields, the calls the
  controller has made to its collaborators in the order it made them, and the lines it
  wrote to the console. What a collaborator answers is read from a \<open>host\<close> record, one
  per operation. Every method runs to completion before the next one starts: a host
  callback is an operation of its own, invoked by the environment, and the only
  suspension point of the source (the \<open>await\<close> in \<open>getHtml\<close>) is not interleaved
  with other operations. A call is recorded as made; what the host does with it (what
  disposing a disposable releases, which events it fires afterwards) is the host's, and
  comes back to the controller as a later operation. The one callback that a host can
  run before the calling method returns, \<open>onPanelDisposed\<close> during the release of the
  disposable, is put back into the call by \<open>dispose_observed\<close>.
\<close>

subsection \<open>Data\<close>

type_synonym IThemeCustomSettings = "(string \<times> string) list"

datatype Scope = User | Workspace

datatype Message =
    SettingsChangedMessage IThemeCustomSettings
  | SaveSettingsMessage "(string \<times> string) list" "string list" Scope string

text \<open>The tag field \<open>type\<close> of the two message shapes.\<close>

fun message_type :: "Message \<Rightarrow> string" where
  "message_type (SettingsChangedMessage config) = ''settingsChanged''"
| "message_type (SaveSettingsMessage changes removes scope uri) = ''saveSettings''"

text \<open>
  What the webview can hand to \<open>onMessageReceived\<close> at run time: \<open>null\<close>, one of the
  two declared message shapes, or some other object, of which only the value of its
  \<open>type\<close> field matters to the code.
\<close>

datatype Inbound = Null | Typed Message | Untyped string

fun inbound_type :: "Inbound \<Rightarrow> string option" where
  "inbound_type Null = None"
| "inbound_type (Typed m) = Some (message_type m)"
| "inbound_type (Untyped t) = Some t"

datatype Invalidates = InvAll | InvConfig

type_synonym WebviewPanel = nat

datatype ViewColumn = Active

record WebviewOptions =
  retainContextWhenHidden :: bool
  enableFindWidget :: bool
  enableCommandUris :: bool
  enableScripts :: bool

datatype Listener = OnPanelDisposed | OnViewStateChanged | OnMessageReceived

text \<open>
  A disposable of the host: a panel, the subscription of a listener to an event of a
  panel, or the composite that \<open>Disposable.from\<close> builds.
\<close>

datatype Disposable =
    OfPanel WebviewPanel
  | Subscription WebviewPanel Listener
  | From "Disposable list"

datatype error = ContentResolution string

text \<open>The calls to collaborators, as the source writes them.\<close>

datatype call =
    OpenTextDocument string
  | GetCustomSettings
  | CreateWebviewPanel string string ViewColumn WebviewOptions
  | OnDidDispose WebviewPanel Listener
  | OnDidChangeViewState WebviewPanel Listener
  | OnDidReceiveMessage WebviewPanel Listener
  | SetHtml WebviewPanel string
  | Reveal WebviewPanel ViewColumn
  | WebviewPostMessage WebviewPanel Message
  | DisposeOf Disposable

datatype log =
    LogViewStateChanged bool
  | LogMessageReceived Inbound

text \<open>
  The abstract getters a concrete editor supplies. The getter \<open>id\<close> is \<open>id_str\<close> here
  (\<open>id\<close> is the identity function of HOL); the getter \<open>context\<close> is used for
  \<open>asAbsolutePath\<close> only, which is a field of the host below.
\<close>

record editor =
  filename :: string
  id_str :: string
  title :: string

text \<open>
  The answers of the collaborators during one operation: \<open>context.asAbsolutePath\<close>,
  the text of the document \<open>Workspace.openTextDocument\<close> resolves (or its failure), the
  panel \<open>window.createWebviewPanel\<close> returns, the result of \<open>webview.postMessage\<close>
  (read as the boolean the source tests) and the snapshot of \<open>getCustomSettings\<close>.
\<close>

record host =
  asAbsolutePath :: "string \<Rightarrow> string"
  openTextDocument :: "string \<Rightarrow> error + string"
  createWebviewPanel :: "string \<Rightarrow> string \<Rightarrow> WebviewPanel"
  webviewPostMessage :: "WebviewPanel \<Rightarrow> Message \<Rightarrow> bool"
  getCustomSettings :: IThemeCustomSettings

record state =
  panel :: "WebviewPanel option"
  disposablePanel :: "Disposable option"
  invalidateOnVisible :: "Invalidates option"
  calls :: "call list"
  console :: "log list"

record ViewStateEvent =
  webviewPanel :: WebviewPanel
  visible :: bool

text \<open>The result of \<open>onViewStateChanged\<close>, one constructor per \<open>return\<close> of the source.\<close>

datatype ViewStateResult =
    Nothing
  | Posted bool
  | Shown "error + unit"

subsection \<open>Operations\<close>

definition init :: state where
  "init = \<lparr>panel = None, disposablePanel = None, invalidateOnVisible = None,
           calls = [], console = []\<rparr>"

definition dispose :: "state \<Rightarrow> state" where
  "dispose s =
     (case disposablePanel s of
        Some d \<Rightarrow> s\<lparr>calls := calls s @ [DisposeOf d]\<rparr>
      | None \<Rightarrow> s)"

definition getHtml :: "editor \<Rightarrow> host \<Rightarrow> state \<Rightarrow> (error + string) \<times> state" where
  "getHtml c h s =
     (let path = asAbsolutePath h (filename c)
      in (openTextDocument h path, s\<lparr>calls := calls s @ [OpenTextDocument path]\<rparr>))"

text \<open>
  The second parameter of \<open>postMessage\<close> has the default \<open>'all'\<close>, which JavaScript
  also takes when the argument is \<open>undefined\<close>: \<open>None\<close> is either.
\<close>

definition invalidates_default :: "Invalidates option \<Rightarrow> Invalidates" where
  "invalidates_default i = (case i of None \<Rightarrow> InvAll | Some v \<Rightarrow> v)"

definition postMessage :: "host \<Rightarrow> Message \<Rightarrow> Invalidates option \<Rightarrow> state \<Rightarrow> bool \<times> state" where
  "postMessage h message i s =
     (case panel s of
        None \<Rightarrow> (False, s)
      | Some p \<Rightarrow>
          (let invalidates = invalidates_default i;
               result = webviewPostMessage h p message;
               s1 = s\<lparr>calls := calls s @ [WebviewPostMessage p message]\<rparr>;
               s2 = (if \<not> result \<and> invalidateOnVisible s1 \<noteq> Some InvAll
                     then s1\<lparr>invalidateOnVisible := Some invalidates\<rparr>
                     else s1)
           in (result, s2)))"

definition postUpdatedConfiguration :: "host \<Rightarrow> state \<Rightarrow> bool \<times> state" where
  "postUpdatedConfiguration h s =
     (let config = getCustomSettings h;
          s1 = s\<lparr>calls := calls s @ [GetCustomSettings]\<rparr>
      in postMessage h (SettingsChangedMessage config) (Some InvConfig) s1)"

definition onPanelDisposed :: "state \<Rightarrow> state" where
  "onPanelDisposed s =
     (let s1 = (case disposablePanel s of
                  Some d \<Rightarrow> s\<lparr>calls := calls s @ [DisposeOf d]\<rparr>
                | None \<Rightarrow> s)
      in s1\<lparr>panel := None\<rparr>)"

definition onMessageReceived :: "Inbound \<Rightarrow> state \<Rightarrow> (error + unit) \<times> state" where
  "onMessageReceived event s =
     (if event = Null then (Inr (), s)
      else
        (let s1 = s\<lparr>console := console s @ [LogMessageReceived event]\<rparr>
         in if inbound_type event = Some ''saveSettings'' then (Inr (), s1)
            else (Inr (), s1)))"

text \<open>The method \<open>show\<close>; its name is a keyword of Isar, hence \<open>show_editor\<close>.\<close>

definition options :: WebviewOptions where
  "options = \<lparr>retainContextWhenHidden = True, enableFindWidget = True,
              enableCommandUris = True, enableScripts = True\<rparr>"

definition show_editor :: "editor \<Rightarrow> host \<Rightarrow> state \<Rightarrow> (error + unit) \<times> state" where
  "show_editor c h s =
     (case getHtml c h s of
        (Inl e, s1) \<Rightarrow> (Inl e, s1)
      | (Inr html, s1) \<Rightarrow>
          (case panel s1 of
             Some p \<Rightarrow> (Inr (), s1\<lparr>calls := calls s1 @ [SetHtml p html, Reveal p Active]\<rparr>)
           | None \<Rightarrow>
               (let p = createWebviewPanel h (id_str c) (title c);
                    d = From [OfPanel p,
                              Subscription p OnPanelDisposed,
                              Subscription p OnViewStateChanged,
                              Subscription p OnMessageReceived]
                in (Inr (),
                    s1\<lparr>panel := Some p,
                       disposablePanel := Some d,
                       calls := calls s1 @
                         [CreateWebviewPanel (id_str c) (title c) Active options,
                          OnDidDispose p OnPanelDisposed,
                          OnDidChangeViewState p OnViewStateChanged,
                          OnDidReceiveMessage p OnMessageReceived,
                          SetHtml p html]\<rparr>))))"

definition onViewStateChanged ::
  "editor \<Rightarrow> host \<Rightarrow> ViewStateEvent \<Rightarrow> state \<Rightarrow> ViewStateResult \<times> state" where
  "onViewStateChanged c h event s =
     (let s1 = s\<lparr>console := console s @ [LogViewStateChanged (visible event)]\<rparr>
      in if invalidateOnVisible s1 = None \<or> \<not> visible event then (Nothing, s1)
         else
           (let invalidContext = invalidateOnVisible s1;
                s2 = s1\<lparr>invalidateOnVisible := None\<rparr>
            in if invalidContext = Some InvConfig
               then (case postUpdatedConfiguration h s2 of (r, s3) \<Rightarrow> (Posted r, s3))
               else (case show_editor c h s2 of (r, s3) \<Rightarrow> (Shown r, s3))))"

subsection \<open>Sequences of operations\<close>

text \<open>
  A sequence of \<open>show()\<close> calls, each run to completion, with nothing in between; the
  host may answer each call differently. A call that fails leaves the caller free to
  call again, so the sequence goes on.
\<close>

fun show_all :: "editor \<Rightarrow> host list \<Rightarrow> state \<Rightarrow> state" where
  "show_all c [] s = s"
| "show_all c (h # hs) s = show_all c hs (snd (show_editor c h s))"

fun is_creation :: "call \<Rightarrow> bool" where
  "is_creation (CreateWebviewPanel i t v opts) = True"
| "is_creation other = False"

definition creations :: "call list \<Rightarrow> nat" where
  "creations cs = length (filter is_creation cs)"

definition resolves :: "editor \<Rightarrow> host \<Rightarrow> bool" where
  "resolves c h = (case openTextDocument h (asAbsolutePath h (filename c)) of
                     Inl e \<Rightarrow> False | Inr html \<Rightarrow> True)"

text \<open>What one \<open>show()\<close> asks of the collaborators when the panel \<open>p\<close> is already open.\<close>

definition reveal_calls :: "editor \<Rightarrow> host \<Rightarrow> WebviewPanel \<Rightarrow> call list" where
  "reveal_calls c h p =
     (let path = asAbsolutePath h (filename c)
      in OpenTextDocument path #
         (case openTextDocument h path of
            Inl e \<Rightarrow> []
          | Inr html \<Rightarrow> [SetHtml p html, Reveal p Active]))"

text \<open>Every operation of the controller, public method or host callback.\<close>

datatype operation =
    CallShow
  | CallDispose
  | CallOnPanelDisposed
  | CallOnViewStateChanged ViewStateEvent
  | CallPostMessage Message "Invalidates option"
  | CallPostUpdatedConfiguration
  | CallOnMessageReceived Inbound

fun step :: "editor \<Rightarrow> host \<Rightarrow> operation \<Rightarrow> state \<Rightarrow> state" where
  "step c h CallShow s = snd (show_editor c h s)"
| "step c h CallDispose s = dispose s"
| "step c h CallOnPanelDisposed s = onPanelDisposed s"
| "step c h (CallOnViewStateChanged event) s = snd (onViewStateChanged c h event s)"
| "step c h (CallPostMessage message i) s = snd (postMessage h message i s)"
| "step c h CallPostUpdatedConfiguration s = snd (postUpdatedConfiguration h s)"
| "step c h (CallOnMessageReceived event) s = snd (onMessageReceived event s)"

text \<open>The invariant of the data model as the specification words it, and its half.\<close>

definition created_and_destroyed_together :: "state \<Rightarrow> bool" where
  "created_and_destroyed_together s = ((disposablePanel s \<noteq> None) = (panel s \<noteq> None))"

definition panel_has_disposable :: "state \<Rightarrow> bool" where
  "panel_has_disposable s = (panel s \<noteq> None \<longrightarrow> disposablePanel s \<noteq> None)"

definition releases :: "Disposable \<Rightarrow> state \<Rightarrow> nat" where
  "releases d s = count_list (calls s) (DisposeOf d)"

text \<open>The composite that \<open>show\<close> builds for a new panel \<open>p\<close>.\<close>

definition disposable_from :: "WebviewPanel \<Rightarrow> Disposable" where
  "disposable_from p = From [OfPanel p,
                             Subscription p OnPanelDisposed,
                             Subscription p OnViewStateChanged,
                             Subscription p OnMessageReceived]"

text \<open>
  What a caller of \<open>dispose\<close> observes once the host's part in the release is taken in.
  \<open>show\<close> puts the panel first into the composite and subscribes \<open>onPanelDisposed\<close> to
  the panel's \<open>onDidDispose\<close>. A host that fires that event when the panel is disposed
  (VS Code does, the first time a panel is disposed) runs \<open>onPanelDisposed\<close> before
  \<open>disposablePanel.dispose()\<close> returns, and \<open>dispose\<close> does nothing after that call.
  \<open>fires\<close> is this answer of the host for the call. Without a disposable the host is
  not called, and nothing fires.
\<close>

definition dispose_observed :: "bool \<Rightarrow> state \<Rightarrow> state" where
  "dispose_observed fires s =
     (case disposablePanel s of
        None \<Rightarrow> dispose s
      | Some d \<Rightarrow> if fires then onPanelDisposed (dispose s) else dispose s)"

subsection \<open>A concrete editor and three hosts\<close>

definition settings_editor :: editor where
  "settings_editor = \<lparr>filename = ''settings.html'', id_str = ''settings'', title = ''Settings''\<rparr>"

definition host_visible :: host where
  "host_visible =
     \<lparr>asAbsolutePath = (\<lambda>f. ''/ext/'' @ f),
      openTextDocument = (\<lambda>path. Inr ''<h1>A</h1>''),
      createWebviewPanel = (\<lambda>i t. 7),
      webviewPostMessage = (\<lambda>p m. True),
      getCustomSettings = [(''accent'', ''Teal'')]\<rparr>"

definition host_hidden :: host where
  "host_hidden = host_visible\<lparr>webviewPostMessage := (\<lambda>p m. False)\<rparr>"

definition host_missing :: host where
  "host_missing = host_visible\<lparr>openTextDocument := (\<lambda>path. Inl (ContentResolution path))\<rparr>"

definition opened :: state where
  "opened = snd (show_editor settings_editor host_visible init)"

definition unit_of_opened :: Disposable where
  "unit_of_opened = From [OfPanel 7, Subscription 7 OnPanelDisposed,
                          Subscription 7 OnViewStateChanged, Subscription 7 OnMessageReceived]"

definition became_visible :: ViewStateEvent where
  "became_visible = \<lparr>webviewPanel = 7, visible = True\<rparr>"

section \<open>Properties\<close>

lemmas ops = dispose_def getHtml_def postMessage_def postUpdatedConfiguration_def
  onPanelDisposed_def onMessageReceived_def show_editor_def onViewStateChanged_def
  invalidates_default_def

lemmas data = settings_editor_def host_visible_def host_hidden_def host_missing_def init_def
  opened_def unit_of_opened_def became_visible_def

lemma panel_opened: "panel opened = Some 7"
  by (simp add: ops data)

lemma disposablePanel_opened: "disposablePanel opened = Some unit_of_opened"
  by (simp add: ops data)

subsection \<open>Outbound messages\<close>

text \<open>
  C1. A call of \<open>postMessage\<close> while a panel exists, whose delivery the webview reports
  as failed, records the invalidation class of the call as the pending invalidation, unless
  the pending invalidation is already \<open>'all'\<close>, which is kept. The class of the call is
  the argument, or \<open>'all'\<close> when the argument is left out.
\<close>

theorem postMessage_undelivered_records_invalidation:
  assumes "panel s = Some p" and "\<not> webviewPostMessage h p message"
  shows "postMessage h message i s =
     (False, s\<lparr>calls := calls s @ [WebviewPostMessage p message],
               invalidateOnVisible :=
                 (if invalidateOnVisible s = Some InvAll then Some InvAll
                  else Some (invalidates_default i))\<rparr>)
     \<and> invalidates_default (Some v) = v \<and> invalidates_default None = InvAll"
  using assms by (simp add: postMessage_def invalidates_default_def Let_def)

theorem postMessage_undelivered_records_invalidation_witness:
  "panel (opened\<lparr>invalidateOnVisible := Some InvAll\<rparr>) = Some 7 \<and>
   \<not> webviewPostMessage host_hidden 7 (SettingsChangedMessage []) \<and>
   invalidateOnVisible (snd (postMessage host_hidden (SettingsChangedMessage []) (Some InvConfig)
      (opened\<lparr>invalidateOnVisible := Some InvAll\<rparr>))) = Some InvAll \<and>
   invalidateOnVisible (snd (postMessage host_hidden (SettingsChangedMessage []) (Some InvConfig)
      opened)) = Some InvConfig"
proof -
  have p: "panel (opened\<lparr>invalidateOnVisible := Some InvAll\<rparr>) = Some 7"
          "panel opened = Some 7"
    by (simp_all add: panel_opened)
  have n: "\<not> webviewPostMessage host_hidden 7 (SettingsChangedMessage [])"
    by (simp add: data)
  have i: "invalidateOnVisible opened = None" by (simp add: ops data)
  show ?thesis
    using postMessage_undelivered_records_invalidation [OF p(1) n, of "Some InvConfig" InvConfig]
          postMessage_undelivered_records_invalidation [OF p(2) n, of "Some InvConfig" InvConfig]
          p n i
    by (simp add: invalidates_default_def)
qed

text \<open>
  C8. Without a panel, \<open>postMessage\<close> returns \<open>false\<close> and changes nothing: no call
  reaches the webview and every field keeps its value.
\<close>

theorem postMessage_without_panel:
  "panel s = None \<Longrightarrow> postMessage h message i s = (False, s)"
  by (simp add: postMessage_def)

theorem postMessage_without_panel_witness:
  "panel init = None \<and>
  postMessage host_visible (SettingsChangedMessage []) None init = (False, init)"
  using postMessage_without_panel [of init host_visible "SettingsChangedMessage []" None]
  by (simp add: init_def)

subsection \<open>Becoming visible\<close>

text \<open>
  C2. When the controller's panel reports that it is visible and an invalidation is
  pending, \<open>onViewStateChanged\<close> first clears the pending invalidation. For \<open>'config'\<close> it
  then runs \<open>postUpdatedConfiguration\<close>: the settings are read once and exactly one
  \<open>settingsChanged\<close> message carrying them goes to the webview. For \<open>'all'\<close> it runs
  \<open>show\<close>: the content is fetched again and, when it resolves, set and revealed on the
  panel.
\<close>

theorem onViewStateChanged_visible_consumes_pending:
  assumes "panel s = Some (webviewPanel event)" and "visible event"
    and "invalidateOnVisible s = Some v"
  shows "case v of
       InvConfig \<Rightarrow>
         onViewStateChanged c h event s =
           (case postUpdatedConfiguration h
                   (s\<lparr>console := console s @ [LogViewStateChanged True],
                      invalidateOnVisible := None\<rparr>)
            of (r, s') \<Rightarrow> (Posted r, s'))
         \<and> calls (snd (onViewStateChanged c h event s)) =
             calls s @ [GetCustomSettings,
                        WebviewPostMessage (webviewPanel event)
                          (SettingsChangedMessage (getCustomSettings h))]
         \<and> invalidateOnVisible (snd (onViewStateChanged c h event s)) =
             (if webviewPostMessage h (webviewPanel event)
                   (SettingsChangedMessage (getCustomSettings h))
              then None else Some InvConfig)
     | InvAll \<Rightarrow>
         onViewStateChanged c h event s =
           (case show_editor c h
                   (s\<lparr>console := console s @ [LogViewStateChanged True],
                      invalidateOnVisible := None\<rparr>)
            of (r, s') \<Rightarrow> (Shown r, s'))
         \<and> calls (snd (onViewStateChanged c h event s)) =
             calls s @ reveal_calls c h (webviewPanel event)
         \<and> invalidateOnVisible (snd (onViewStateChanged c h event s)) = None"
proof (cases v)
  case InvAll
  with assms show ?thesis
    by (simp add: onViewStateChanged_def show_editor_def getHtml_def reveal_calls_def Let_def
        split: sum.splits)
next
  case InvConfig
  with assms show ?thesis
    by (simp add: onViewStateChanged_def postUpdatedConfiguration_def postMessage_def
        invalidates_default_def Let_def)
qed

theorem onViewStateChanged_visible_consumes_pending_witness:
  "panel (opened\<lparr>invalidateOnVisible := Some InvConfig\<rparr>) = Some (webviewPanel became_visible)
   \<and> visible became_visible
   \<and> calls (snd (onViewStateChanged settings_editor host_visible became_visible
                    (opened\<lparr>invalidateOnVisible := Some InvConfig\<rparr>))) =
       calls opened @ [GetCustomSettings,
                       WebviewPostMessage 7 (SettingsChangedMessage [(''accent'', ''Teal'')])]
   \<and> invalidateOnVisible (snd (onViewStateChanged settings_editor host_visible became_visible
                    (opened\<lparr>invalidateOnVisible := Some InvConfig\<rparr>))) = None
   \<and> calls (snd (onViewStateChanged settings_editor host_visible became_visible
                    (opened\<lparr>invalidateOnVisible := Some InvAll\<rparr>))) =
       calls opened @ [OpenTextDocument ''/ext/settings.html'',
                       SetHtml 7 ''<h1>A</h1>'', Reveal 7 Active]
   \<and> invalidateOnVisible (snd (onViewStateChanged settings_editor host_visible became_visible
                    (opened\<lparr>invalidateOnVisible := Some InvAll\<rparr>))) = None"
proof -
  have w: "webviewPanel became_visible = 7" by (simp add: became_visible_def)
  have p: "panel (opened\<lparr>invalidateOnVisible := Some InvConfig\<rparr>)
             = Some (webviewPanel became_visible)"
          "panel (opened\<lparr>invalidateOnVisible := Some InvAll\<rparr>)
             = Some (webviewPanel became_visible)"
    by (simp_all add: panel_opened w)
  have v: "visible became_visible" by (simp add: became_visible_def)
  have i: "invalidateOnVisible (opened\<lparr>invalidateOnVisible := Some InvConfig\<rparr>) = Some InvConfig"
          "invalidateOnVisible (opened\<lparr>invalidateOnVisible := Some InvAll\<rparr>) = Some InvAll"
    by simp_all
  have r: "reveal_calls settings_editor host_visible 7 =
             [OpenTextDocument ''/ext/settings.html'', SetHtml 7 ''<h1>A</h1>'', Reveal 7 Active]"
    by (simp add: reveal_calls_def data)
  have g: "getCustomSettings host_visible = [(''accent'', ''Teal'')]"
          "webviewPostMessage host_visible 7 (SettingsChangedMessage [(''accent'', ''Teal'')])"
    by (simp_all add: data)
  have A: "calls (snd (onViewStateChanged settings_editor host_visible became_visible
                    (opened\<lparr>invalidateOnVisible := Some InvConfig\<rparr>))) =
             calls (opened\<lparr>invalidateOnVisible := Some InvConfig\<rparr>) @
               [GetCustomSettings,
                WebviewPostMessage (webviewPanel became_visible)
                  (SettingsChangedMessage (getCustomSettings host_visible))]
           \<and> invalidateOnVisible (snd (onViewStateChanged settings_editor host_visible
                    became_visible (opened\<lparr>invalidateOnVisible := Some InvConfig\<rparr>))) =
             (if webviewPostMessage host_visible (webviewPanel became_visible)
                   (SettingsChangedMessage (getCustomSettings host_visible))
              then None else Some InvConfig)"
    using onViewStateChanged_visible_consumes_pending
            [OF p(1) v i(1), of settings_editor host_visible]
    unfolding Invalidates.case by blast
  have B: "calls (snd (onViewStateChanged settings_editor host_visible became_visible
                    (opened\<lparr>invalidateOnVisible := Some InvAll\<rparr>))) =
             calls (opened\<lparr>invalidateOnVisible := Some InvAll\<rparr>) @
               reveal_calls settings_editor host_visible (webviewPanel became_visible)
           \<and> invalidateOnVisible (snd (onViewStateChanged settings_editor host_visible
                    became_visible (opened\<lparr>invalidateOnVisible := Some InvAll\<rparr>))) = None"
    using onViewStateChanged_visible_consumes_pending
            [OF p(2) v i(2), of settings_editor host_visible]
    unfolding Invalidates.case by blast
  show ?thesis
    using A B p(1) v by (simp add: w r g)
qed

subsection \<open>Inbound messages\<close>

text \<open>
  C3. On a \<open>saveSettings\<close> message \<open>onMessageReceived\<close> writes its console line and
  returns: the list of calls to collaborators is the one it started with, so nothing of
  \<open>changes\<close>, \<open>removes\<close>, \<open>scope\<close> and \<open>uri\<close> is forwarded.
\<close>

theorem onMessageReceived_saveSettings_forwards_nothing:
  "onMessageReceived (Typed (SaveSettingsMessage changes removes scope uri)) s =
   (Inr (), s\<lparr>console := console s @
       [LogMessageReceived (Typed (SaveSettingsMessage changes removes scope uri))]\<rparr>)
   \<and> calls (snd (onMessageReceived (Typed (SaveSettingsMessage changes removes scope uri)) s))
       = calls s"
  by (simp add: onMessageReceived_def)

text \<open>
  C9. An inbound event that is \<open>null\<close>, or whose \<open>type\<close> is not \<open>'saveSettings'\<close>,
  makes \<open>onMessageReceived\<close> return normally without a call to any collaborator and
  without a change to a field; \<open>null\<close> leaves the whole state as it is, any other event
  adds its console line.
\<close>

theorem onMessageReceived_ignores_other_events:
  assumes "inbound_type event \<noteq> Some ''saveSettings''"
  shows "fst (onMessageReceived event s) = Inr ()
    \<and> snd (onMessageReceived event s) =
        (if event = Null then s else s\<lparr>console := console s @ [LogMessageReceived event]\<rparr>)
    \<and> calls (snd (onMessageReceived event s)) = calls s
    \<and> panel (snd (onMessageReceived event s)) = panel s
    \<and> disposablePanel (snd (onMessageReceived event s)) = disposablePanel s
    \<and> invalidateOnVisible (snd (onMessageReceived event s)) = invalidateOnVisible s"
  by (simp add: onMessageReceived_def)

theorem onMessageReceived_ignores_other_events_witness:
  "inbound_type Null \<noteq> Some ''saveSettings''
   \<and> inbound_type (Untyped ''unknown'') \<noteq> Some ''saveSettings''
   \<and> onMessageReceived Null opened = (Inr (), opened)
   \<and> fst (onMessageReceived (Untyped ''unknown'') opened) = Inr ()
   \<and> calls (snd (onMessageReceived (Untyped ''unknown'') opened)) = calls opened"
proof -
  have a: "inbound_type Null \<noteq> Some ''saveSettings''" by simp
  have b: "inbound_type (Untyped ''unknown'') \<noteq> Some ''saveSettings''" by simp
  show ?thesis
    using onMessageReceived_ignores_other_events [OF a, of opened] onMessageReceived_ignores_other_events [OF b, of opened] a b
    by (simp add: prod_eq_iff)
qed

subsection \<open>Showing the panel\<close>

text \<open>
  C7. When the content does not resolve, \<open>show\<close> returns the failure to its caller.
  The only call it made is the fetch itself: no panel is created, and \<open>panel\<close>,
  \<open>disposablePanel\<close> and \<open>invalidateOnVisible\<close> keep their values.
\<close>

theorem show_editor_failure_propagates:
  assumes "openTextDocument h (asAbsolutePath h (filename c)) = Inl e"
  shows "show_editor c h s =
           (Inl e, s\<lparr>calls := calls s @ [OpenTextDocument (asAbsolutePath h (filename c))]\<rparr>)
    \<and> panel (snd (show_editor c h s)) = panel s
    \<and> disposablePanel (snd (show_editor c h s)) = disposablePanel s
    \<and> invalidateOnVisible (snd (show_editor c h s)) = invalidateOnVisible s
    \<and> creations (calls (snd (show_editor c h s))) = creations (calls s)"
  using assms by (simp add: show_editor_def getHtml_def creations_def)

theorem show_editor_failure_propagates_witness:
  "openTextDocument host_missing (asAbsolutePath host_missing (filename settings_editor))
     = Inl (ContentResolution ''/ext/settings.html'')
   \<and> show_editor settings_editor host_missing init =
       (Inl (ContentResolution ''/ext/settings.html''),
        init\<lparr>calls := [OpenTextDocument ''/ext/settings.html'']\<rparr>)
   \<and> panel (snd (show_editor settings_editor host_missing opened)) = Some 7"
proof -
  have a: "openTextDocument host_missing (asAbsolutePath host_missing (filename settings_editor))
     = Inl (ContentResolution ''/ext/settings.html'')"
    by (simp add: data)
  have p: "panel opened = Some 7" by (simp add: ops data)
  show ?thesis
    using show_editor_failure_propagates [OF a, of init] show_editor_failure_propagates [OF a, of opened] a p
    by (simp add: data)
qed

lemma show_editor_open:
  "panel s = Some p \<Longrightarrow>
   snd (show_editor c h s) = s\<lparr>calls := calls s @ reveal_calls c h p\<rparr>"
  by (simp add: show_editor_def getHtml_def reveal_calls_def Let_def split: sum.splits)

lemma show_editor_closed_fails:
  "panel s = None \<Longrightarrow> \<not> resolves c h \<Longrightarrow>
   panel (snd (show_editor c h s)) = None
   \<and> creations (calls (snd (show_editor c h s))) = creations (calls s)"
  by (simp add: show_editor_def getHtml_def resolves_def creations_def split: sum.splits)

lemma show_editor_closed_resolves:
  "panel s = None \<Longrightarrow> resolves c h \<Longrightarrow>
   panel (snd (show_editor c h s)) = Some (createWebviewPanel h (id_str c) (title c))
   \<and> creations (calls (snd (show_editor c h s))) = Suc (creations (calls s))"
  by (simp add: show_editor_def getHtml_def resolves_def creations_def Let_def split: sum.splits)

lemma creations_append: "creations (cs @ ds) = creations cs + creations ds"
  by (simp add: creations_def)

lemma creations_reveal_calls: "creations (reveal_calls c h p) = 0"
  by (simp add: creations_def reveal_calls_def Let_def split: sum.splits)

lemma show_all_open:
  "panel s = Some p \<Longrightarrow>
   show_all c hs s = s\<lparr>calls := calls s @ concat (map (\<lambda>h. reveal_calls c h p) hs)\<rparr>"
proof (induction hs arbitrary: s)
  case Nil
  then show ?case by simp
next
  case (Cons h hs)
  have "panel (s\<lparr>calls := calls s @ reveal_calls c h p\<rparr>) = Some p"
    using Cons.prems by simp
  from Cons.IH [OF this] show ?case
    using Cons.prems by (simp add: show_editor_open)
qed

lemma creations_concat_reveal:
  "creations (concat (map (\<lambda>h. reveal_calls c h p) hs)) = 0"
  by (induction hs) (simp_all add: creations_append creations_reveal_calls, simp add: creations_def)

lemma show_all_creations:
  "creations (calls (show_all c hs s)) =
     creations (calls s) + (if panel s = None \<and> (\<exists>h\<in>set hs. resolves c h) then 1 else 0)"
proof (induction hs arbitrary: s)
  case Nil
  then show ?case by simp
next
  case (Cons h hs)
  show ?case
  proof (cases "panel s")
    case (Some p)
    then show ?thesis
      by (simp add: show_all_open [OF Some] creations_append creations_reveal_calls creations_concat_reveal)
  next
    case None
    show ?thesis
    proof (cases "resolves c h")
      case True
      from show_editor_closed_resolves [OF None True]
      show ?thesis using None True by (simp add: Cons.IH)
    next
      case False
      from show_editor_closed_fails [OF None False]
      show ?thesis using None False by (simp add: Cons.IH)
    qed
  qed
qed

text \<open>
  C4. A sequence of \<open>show\<close> calls with nothing in between asks the host for at most one
  panel: for exactly one when it starts without a panel and the content resolves in at least
  one of the calls, for none otherwise. Once a panel is there (from the start, or created by
  the first call of the sequence), every later call only fetches the content, sets it on
  that panel and reveals it.
\<close>

theorem show_all_creates_one_panel:
  "creations (calls (show_all c hs s)) =
     creations (calls s) + (if panel s = None \<and> (\<exists>h\<in>set hs. resolves c h) then 1 else 0)
   \<and> creations (calls (show_all c hs s)) \<le> creations (calls s) + 1
   \<and> (panel s = Some p \<longrightarrow>
        show_all c hs s = s\<lparr>calls := calls s @ concat (map (\<lambda>h. reveal_calls c h p) hs)\<rparr>)
   \<and> (panel s = None \<longrightarrow> resolves c h \<longrightarrow>
        show_all c (h # hs) s =
          (snd (show_editor c h s))
            \<lparr>calls := calls (snd (show_editor c h s)) @
               concat (map (\<lambda>h'. reveal_calls c h' (createWebviewPanel h (id_str c) (title c))) hs)\<rparr>)"
proof -
  have a: "creations (calls (show_all c hs s)) =
     creations (calls s) + (if panel s = None \<and> (\<exists>h\<in>set hs. resolves c h) then 1 else 0)"
    by (rule show_all_creations)
  have b: "creations (calls (show_all c hs s)) \<le> creations (calls s) + 1"
    by (simp add: a)
  have d: "panel s = None \<longrightarrow> resolves c h \<longrightarrow>
        show_all c (h # hs) s =
          (snd (show_editor c h s))
            \<lparr>calls := calls (snd (show_editor c h s)) @
               concat (map (\<lambda>h'. reveal_calls c h' (createWebviewPanel h (id_str c) (title c))) hs)\<rparr>"
    using show_editor_closed_resolves [of s c h]
    by (auto simp: show_all_open)
  show ?thesis using a b d show_all_open [of s p c hs] by blast
qed

theorem show_all_creates_one_panel_witness:
  "panel init = None \<and> resolves settings_editor host_visible
   \<and> (\<exists>h\<in>set [host_missing, host_visible, host_visible]. resolves settings_editor h)
   \<and> creations (calls (show_all settings_editor [host_missing, host_visible, host_visible] init)) = 1
   \<and> panel opened = Some 7
   \<and> show_all settings_editor [host_visible] opened =
       opened\<lparr>calls := calls opened @
         [OpenTextDocument ''/ext/settings.html'', SetHtml 7 ''<h1>A</h1>'', Reveal 7 Active]\<rparr>
   \<and> show_all settings_editor [host_visible, host_visible] init =
       opened\<lparr>calls := calls opened @
         [OpenTextDocument ''/ext/settings.html'', SetHtml 7 ''<h1>A</h1>'', Reveal 7 Active]\<rparr>"
proof -
  have n: "panel init = None" "creations (calls init) = 0"
    by (simp_all add: init_def creations_def)
  have r: "resolves settings_editor host_visible" by (simp add: resolves_def data)
  have e: "\<exists>h\<in>set [host_missing, host_visible, host_visible]. resolves settings_editor h"
    using r by simp
  have p: "panel opened = Some 7" by (simp add: ops data)
  have v: "reveal_calls settings_editor host_visible 7 =
             [OpenTextDocument ''/ext/settings.html'', SetHtml 7 ''<h1>A</h1>'', Reveal 7 Active]"
    by (simp add: reveal_calls_def data)
  have k: "createWebviewPanel host_visible (id_str settings_editor) (title settings_editor) = 7"
    by (simp add: data)
  have o: "snd (show_editor settings_editor host_visible init) = opened"
    by (simp add: opened_def)
  show ?thesis
    using show_all_creates_one_panel [of settings_editor "[host_missing, host_visible, host_visible]" init 7 host_visible]
          show_all_creates_one_panel [of settings_editor "[host_visible]" opened 7 host_visible]
          show_all_creates_one_panel [of settings_editor "[host_visible]" init 7 host_visible]
          n r e p v k o
    by simp
qed

subsection \<open>Disposal\<close>

lemma postMessage_fields:
  "panel (snd (postMessage h message i s)) = panel s
   \<and> disposablePanel (snd (postMessage h message i s)) = disposablePanel s"
  by (simp add: postMessage_def Let_def split: option.splits)

lemma postUpdatedConfiguration_fields:
  "panel (snd (postUpdatedConfiguration h s)) = panel s
   \<and> disposablePanel (snd (postUpdatedConfiguration h s)) = disposablePanel s"
  by (simp add: postUpdatedConfiguration_def Let_def postMessage_fields)

text \<open>The fields \<open>panel\<close> and \<open>disposablePanel\<close> after one \<open>show\<close>.\<close>

lemma show_editor_fields:
  "panel (snd (show_editor c h s)) =
     (case panel s of
        Some p \<Rightarrow> Some p
      | None \<Rightarrow> if resolves c h then Some (createWebviewPanel h (id_str c) (title c)) else None)
   \<and> disposablePanel (snd (show_editor c h s)) =
     (case panel s of
        Some p \<Rightarrow> disposablePanel s
      | None \<Rightarrow> if resolves c h
                then Some (disposable_from (createWebviewPanel h (id_str c) (title c)))
                else disposablePanel s)"
  by (simp add: show_editor_def getHtml_def resolves_def disposable_from_def Let_def
      split: sum.splits option.splits)

lemma onViewStateChanged_fields:
  "(panel (snd (onViewStateChanged c h event s)) = panel s
    \<and> disposablePanel (snd (onViewStateChanged c h event s)) = disposablePanel s)
   \<or> (panel (snd (onViewStateChanged c h event s)) = panel (snd (show_editor c h s))
    \<and> disposablePanel (snd (onViewStateChanged c h event s))
        = disposablePanel (snd (show_editor c h s)))"
  by (auto simp: onViewStateChanged_def Let_def split_beta postUpdatedConfiguration_fields
      show_editor_fields split: option.splits)

text \<open>How one operation changes the two fields.\<close>

lemma step_fields:
  "(panel (step c h op s) = panel s \<and> disposablePanel (step c h op s) = disposablePanel s)
   \<or> (panel (step c h op s) = None \<and> disposablePanel (step c h op s) = disposablePanel s
       \<and> op = CallOnPanelDisposed)
   \<or> (panel s = None
       \<and> panel (step c h op s) = Some (createWebviewPanel h (id_str c) (title c))
       \<and> disposablePanel (step c h op s)
           = Some (disposable_from (createWebviewPanel h (id_str c) (title c))))"
proof (cases op)
  case CallShow
  then show ?thesis by (simp add: show_editor_fields split: option.splits)
next
  case CallDispose
  then show ?thesis by (simp add: dispose_def split: option.splits)
next
  case CallOnPanelDisposed
  then show ?thesis by (simp add: onPanelDisposed_def Let_def split: option.splits)
next
  case (CallOnViewStateChanged event)
  then show ?thesis
    using onViewStateChanged_fields [of c h event s]
    by (auto simp: show_editor_fields split: option.splits if_splits)
next
  case (CallPostMessage message i)
  then show ?thesis by (simp add: postMessage_fields)
next
  case CallPostUpdatedConfiguration
  then show ?thesis by (simp add: postUpdatedConfiguration_fields)
next
  case (CallOnMessageReceived event)
  then show ?thesis by (simp add: onMessageReceived_def Let_def)
qed

text \<open>
  Under a host that fires the panel's \<open>onDidDispose\<close> during the release, a panel that
  was set before \<open>dispose\<close> is cleared after it, and the next \<open>show\<close> asks the host
  for a second panel.
\<close>

theorem dispose_under_firing_host_clears_panel:
  "panel opened = Some 7
   \<and> panel (dispose_observed True opened) = None
   \<and> creations (calls opened) = 1
   \<and> creations (calls (snd (show_editor settings_editor host_visible
                               (dispose_observed True opened)))) = 2"
  by (simp add: dispose_observed_def creations_def ops data Let_def)

text \<open>
  C10, amended. The body of \<open>dispose\<close> makes no assignment to \<open>panel\<close>, and of all
  operations only \<open>onPanelDisposed\<close> clears a panel that is set. What a caller finds
  after \<open>dispose\<close> depends on the host. When the host does not fire the panel's dispose
  event during the release, \<open>panel\<close> is as before and a following \<open>show\<close> sets the
  content on that panel and reveals it, creating none. When the host fires it,
  \<open>onPanelDisposed\<close> has run within \<open>dispose\<close>: the disposable has been released
  twice, \<open>panel\<close> is cleared, and a following \<open>show\<close> whose content resolves creates
  a new panel. Without a disposable, \<open>dispose\<close> changes nothing under either host.
\<close>

theorem dispose_panel_follows_host:
  "panel (dispose s) = panel s
   \<and> (panel s = Some p \<longrightarrow> op \<noteq> CallOnPanelDisposed \<longrightarrow> panel (step c h op s) = Some p)
   \<and> dispose_observed False s = dispose s
   \<and> (panel s = Some p \<longrightarrow>
        openTextDocument h (asAbsolutePath h (filename c)) = Inr html \<longrightarrow>
        show_editor c h (dispose_observed False s) =
          (Inr (), (dispose s)\<lparr>calls := calls (dispose s) @
                     [OpenTextDocument (asAbsolutePath h (filename c)),
                      SetHtml p html, Reveal p Active]\<rparr>)
        \<and> panel (snd (show_editor c h (dispose_observed False s))) = Some p
        \<and> creations (calls (snd (show_editor c h (dispose_observed False s))))
            = creations (calls s))
   \<and> (disposablePanel s = Some d \<longrightarrow>
        dispose_observed True s = s\<lparr>calls := calls s @ [DisposeOf d, DisposeOf d], panel := None\<rparr>
        \<and> (openTextDocument h (asAbsolutePath h (filename c)) = Inr html \<longrightarrow>
             panel (snd (show_editor c h (dispose_observed True s)))
               = Some (createWebviewPanel h (id_str c) (title c))
             \<and> creations (calls (snd (show_editor c h (dispose_observed True s))))
                 = Suc (creations (calls s))))
   \<and> (disposablePanel s = None \<longrightarrow> dispose_observed fires s = s)"
proof -
  have a: "panel (dispose s) = panel s"
    by (simp add: dispose_def split: option.splits)
  have b: "panel s = Some p \<longrightarrow> op \<noteq> CallOnPanelDisposed \<longrightarrow> panel (step c h op s) = Some p"
    using step_fields [of c h op s] by auto
  have e: "dispose_observed False s = dispose s"
    by (simp add: dispose_observed_def split: option.splits)
  have f: "panel s = Some p \<longrightarrow>
        openTextDocument h (asAbsolutePath h (filename c)) = Inr html \<longrightarrow>
        show_editor c h (dispose_observed False s) =
          (Inr (), (dispose s)\<lparr>calls := calls (dispose s) @
                     [OpenTextDocument (asAbsolutePath h (filename c)),
                      SetHtml p html, Reveal p Active]\<rparr>)
        \<and> panel (snd (show_editor c h (dispose_observed False s))) = Some p
        \<and> creations (calls (snd (show_editor c h (dispose_observed False s))))
            = creations (calls s)"
    unfolding e
    by (simp add: dispose_def show_editor_def getHtml_def creations_def split: option.splits)
  have g: "disposablePanel s = Some d \<longrightarrow>
        dispose_observed True s = s\<lparr>calls := calls s @ [DisposeOf d, DisposeOf d], panel := None\<rparr>
        \<and> (openTextDocument h (asAbsolutePath h (filename c)) = Inr html \<longrightarrow>
             panel (snd (show_editor c h (dispose_observed True s)))
               = Some (createWebviewPanel h (id_str c) (title c))
             \<and> creations (calls (snd (show_editor c h (dispose_observed True s))))
                 = Suc (creations (calls s)))"
    by (simp add: dispose_observed_def dispose_def onPanelDisposed_def show_editor_def
        getHtml_def creations_def Let_def)
  have k: "disposablePanel s = None \<longrightarrow> dispose_observed fires s = s"
    by (simp add: dispose_observed_def dispose_def)
  from a b e f g k show ?thesis by blast
qed

theorem dispose_panel_follows_host_witness:
  "panel opened = Some 7
   \<and> disposablePanel opened = Some unit_of_opened
   \<and> CallDispose \<noteq> CallOnPanelDisposed
   \<and> openTextDocument host_visible (asAbsolutePath host_visible (filename settings_editor))
       = Inr ''<h1>A</h1>''
   \<and> disposablePanel init = None
   \<and> dispose_observed True init = init
   \<and> panel (step settings_editor host_visible CallDispose opened) = Some 7
   \<and> calls (snd (show_editor settings_editor host_visible (dispose_observed False opened))) =
       calls opened @ [DisposeOf unit_of_opened, OpenTextDocument ''/ext/settings.html'',
                       SetHtml 7 ''<h1>A</h1>'', Reveal 7 Active]
   \<and> panel (dispose_observed True opened) = None
   \<and> creations (calls (snd (show_editor settings_editor host_visible
                               (dispose_observed True opened)))) = 2"
proof -
  note t = dispose_panel_follows_host [of opened 7 CallDispose settings_editor host_visible "''<h1>A</h1>''"
                   unit_of_opened True]
  have p: "panel opened = Some 7" by (rule panel_opened)
  have d: "disposablePanel opened = Some unit_of_opened" by (rule disposablePanel_opened)
  have n: "disposablePanel init = None" by (simp add: init_def)
  have a: "openTextDocument host_visible (asAbsolutePath host_visible (filename settings_editor))
       = Inr ''<h1>A</h1>''" by (simp add: data)
  have f: "asAbsolutePath host_visible (filename settings_editor) = ''/ext/settings.html''"
    by (simp add: data)
  have z: "creations (calls opened) = 1" by (simp add: creations_def ops data)
  have c: "calls (dispose opened) = calls opened @ [DisposeOf unit_of_opened]"
    by (simp add: dispose_def d)
  have i: "dispose_observed True init = init"
    using dispose_panel_follows_host [of init 7 CallDispose settings_editor host_visible "''<h1>A</h1>''"
                  unit_of_opened True] n by blast
  have s1: "panel (step settings_editor host_visible CallDispose opened) = Some 7"
    using t p by blast
  have s2: "show_editor settings_editor host_visible (dispose_observed False opened) =
          (Inr (), (dispose opened)\<lparr>calls := calls (dispose opened) @
                     [OpenTextDocument (asAbsolutePath host_visible (filename settings_editor)),
                      SetHtml 7 ''<h1>A</h1>'', Reveal 7 Active]\<rparr>)"
    using t p a by blast
  have s3: "dispose_observed True opened =
              opened\<lparr>calls := calls opened @ [DisposeOf unit_of_opened, DisposeOf unit_of_opened],
                     panel := None\<rparr>"
    using t d by blast
  have s4: "creations (calls (snd (show_editor settings_editor host_visible
                               (dispose_observed True opened)))) = Suc (creations (calls opened))"
    using t d a by blast
  have s5: "panel (dispose_observed True opened) = None"
    by (simp add: s3)
  show ?thesis
    using p d n a i s1 by (simp add: s2 s4 s5 c f z)
qed

text \<open>
  After \<open>show\<close> and then \<open>onPanelDisposed\<close> the field \<open>panel\<close> is cleared and
  \<open>disposablePanel\<close> is not: the two fields are not destroyed together.
\<close>

theorem fields_not_destroyed_together:
  "\<not> created_and_destroyed_together
       (step settings_editor host_visible CallOnPanelDisposed
          (step settings_editor host_visible CallShow init))"
  by (simp add: created_and_destroyed_together_def ops data Let_def)

text \<open>
  C5, amended. A controller that holds a panel holds a disposable for it: this holds
  initially and every operation preserves it. The two fields are created together: the
  disposable changes exactly when an operation creates a panel, and then to the composite
  built for that panel. They are not destroyed together: no operation clears a disposable
  that is set, and \<open>onPanelDisposed\<close> clears \<open>panel\<close> and leaves the disposable.
\<close>

theorem panel_has_disposable_preserved:
  "panel_has_disposable init
   \<and> (panel_has_disposable s \<longrightarrow> panel_has_disposable (step c h op s))
   \<and> (disposablePanel s \<noteq> None \<longrightarrow> disposablePanel (step c h op s) \<noteq> None)
   \<and> disposablePanel (step c h op s) =
       (if panel s = None \<and> panel (step c h op s) \<noteq> None
        then Some (disposable_from (createWebviewPanel h (id_str c) (title c)))
        else disposablePanel s)
   \<and> (panel s = None \<and> panel (step c h op s) \<noteq> None \<longrightarrow>
        panel (step c h op s) = Some (createWebviewPanel h (id_str c) (title c)))
   \<and> panel (step c h CallOnPanelDisposed s) = None
   \<and> disposablePanel (step c h CallOnPanelDisposed s) = disposablePanel s"
proof -
  note f = step_fields [of c h op s]
  have i: "panel_has_disposable init"
    by (simp add: panel_has_disposable_def init_def)
  have p: "panel_has_disposable s \<longrightarrow> panel_has_disposable (step c h op s)"
    using f unfolding panel_has_disposable_def by auto
  have n: "disposablePanel s \<noteq> None \<longrightarrow> disposablePanel (step c h op s) \<noteq> None"
    using f by auto
  have e: "disposablePanel (step c h op s) =
       (if panel s = None \<and> panel (step c h op s) \<noteq> None
        then Some (disposable_from (createWebviewPanel h (id_str c) (title c)))
        else disposablePanel s)"
    using f by auto
  have g: "panel s = None \<and> panel (step c h op s) \<noteq> None \<longrightarrow>
        panel (step c h op s) = Some (createWebviewPanel h (id_str c) (title c))"
    using f by auto
  have d: "panel (step c h CallOnPanelDisposed s) = None"
          "disposablePanel (step c h CallOnPanelDisposed s) = disposablePanel s"
    by (simp_all add: onPanelDisposed_def Let_def split: option.splits)
  from i p n e g d show ?thesis by blast
qed

theorem panel_has_disposable_preserved_witness:
  "panel_has_disposable init \<and> panel init = None
   \<and> panel (step settings_editor host_visible CallShow init) = Some 7
   \<and> disposablePanel (step settings_editor host_visible CallShow init) = Some (disposable_from 7)
   \<and> panel_has_disposable opened \<and> panel opened \<noteq> None \<and> disposablePanel opened \<noteq> None
   \<and> panel_has_disposable (step settings_editor host_visible CallOnPanelDisposed opened)
   \<and> panel (step settings_editor host_visible CallOnPanelDisposed opened) = None
   \<and> disposablePanel (step settings_editor host_visible CallOnPanelDisposed opened)
       = Some unit_of_opened"
proof -
  note t1 = panel_has_disposable_preserved [of init settings_editor host_visible CallShow]
  note t2 = panel_has_disposable_preserved [of opened settings_editor host_visible CallOnPanelDisposed]
  have p: "panel opened = Some 7" by (rule panel_opened)
  have d: "disposablePanel opened = Some unit_of_opened" by (rule disposablePanel_opened)
  have a: "panel_has_disposable opened" by (simp add: panel_has_disposable_def p d)
  have n: "panel init = None" by (simp add: init_def)
  have o: "step settings_editor host_visible CallShow init = opened"
    by (simp add: opened_def)
  have k: "createWebviewPanel host_visible (id_str settings_editor) (title settings_editor) = 7"
    by (simp add: data)
  have i: "panel_has_disposable init" using t1 by blast
  have c1: "disposablePanel (step settings_editor host_visible CallShow init) =
       (if panel init = None \<and> panel (step settings_editor host_visible CallShow init) \<noteq> None
        then Some (disposable_from
                     (createWebviewPanel host_visible (id_str settings_editor)
                        (title settings_editor)))
        else disposablePanel init)"
    using t1 by blast
  have c2: "panel (step settings_editor host_visible CallShow init) = Some 7"
    by (simp only: o p)
  have c3: "disposablePanel (step settings_editor host_visible CallShow init)
              = Some (disposable_from 7)"
    using c1 by (simp only: c2 n k) simp
  have e1: "panel_has_disposable (step settings_editor host_visible CallOnPanelDisposed opened)"
    using t2 a by blast
  have e2: "panel (step settings_editor host_visible CallOnPanelDisposed opened) = None"
    using t2 by blast
  have e3: "disposablePanel (step settings_editor host_visible CallOnPanelDisposed opened)
              = disposablePanel opened"
    using t2 by blast
  show ?thesis
    using i n c2 c3 a p d e1 e2 e3 by simp
qed

text \<open>
  After a panel has been created, a second \<open>dispose\<close> calls the disposable's
  \<open>dispose\<close> a second time, whether the first release came from \<open>dispose\<close> or from
  \<open>onPanelDisposed\<close>.
\<close>

theorem second_dispose_releases_again:
  "releases unit_of_opened (dispose (dispose opened)) = 2
   \<and> dispose (dispose opened) \<noteq> dispose opened
   \<and> releases unit_of_opened (dispose (onPanelDisposed opened)) = 2"
  by (simp add: releases_def ops data Let_def)

text \<open>
  C6, amended. While no disposable has been created, \<open>dispose\<close> does nothing and
  \<open>onPanelDisposed\<close> only clears \<open>panel\<close>. Once there is one, every call of \<open>dispose\<close> or
  \<open>onPanelDisposed\<close> calls its \<open>dispose\<close> exactly once more and keeps the reference to
  it.
\<close>

theorem dispose_releases_on_every_call:
  "case disposablePanel s of
     None \<Rightarrow> dispose s = s \<and> onPanelDisposed s = s\<lparr>panel := None\<rparr>
   | Some d \<Rightarrow>
       dispose s = s\<lparr>calls := calls s @ [DisposeOf d]\<rparr>
       \<and> onPanelDisposed s = s\<lparr>calls := calls s @ [DisposeOf d], panel := None\<rparr>
       \<and> releases d (dispose s) = Suc (releases d s)
       \<and> releases d (onPanelDisposed s) = Suc (releases d s)
       \<and> disposablePanel (dispose s) = Some d
       \<and> disposablePanel (onPanelDisposed s) = Some d"
  by (simp add: dispose_def onPanelDisposed_def releases_def Let_def split: option.splits)

theorem dispose_releases_on_every_call_witness:
  "disposablePanel init = None \<and> dispose init = init
   \<and> disposablePanel opened = Some unit_of_opened
   \<and> releases unit_of_opened opened = 0
   \<and> releases unit_of_opened (dispose opened) = 1
   \<and> releases unit_of_opened (dispose (dispose opened)) = 2"
proof -
  have n: "disposablePanel init = None" by (simp add: init_def)
  have d: "disposablePanel opened = Some unit_of_opened" by (simp add: ops data)
  have e: "disposablePanel (dispose opened) = Some unit_of_opened"
    by (simp add: dispose_def d)
  have z: "releases unit_of_opened opened = 0" by (simp add: releases_def ops data)
  have i: "dispose init = init"
    using dispose_releases_on_every_call [of init] unfolding n option.case by blast
  have f: "releases unit_of_opened (dispose opened) = Suc (releases unit_of_opened opened)"
    using dispose_releases_on_every_call [of opened] unfolding d option.case by blast
  have g: "releases unit_of_opened (dispose (dispose opened))
             = Suc (releases unit_of_opened (dispose opened))"
    using dispose_releases_on_every_call [of "dispose opened"] unfolding e option.case by blast
  show ?thesis
    using n d z i f g by simp
qed

end
